theory Spec2Isabelle
  imports Complex_Main
begin

section \<open>Data model (app/models.py)\<close>

text \<open>
  Python strings are sequences of code points, and \<open>abstract[:500]\<close> counts code
  points, so the text columns are lists of code points. Python floats and the stored
  vector components are modelled as reals: rounding, infinities and NaN are outside
  the model. Time stamps are integers.
\<close>

type_synonym py_str = "nat list"

record Paper =
  id' :: int
  title :: py_str
  authors :: "py_str list"
  abstract :: "py_str option"
  pdf_url :: "py_str option"
  arxiv_id :: "py_str option"
  category :: "py_str option"
  published_date :: "int option"
  embedding :: "real list option"
  created_at :: int
  updated_at :: int

record ReadingHistory =
  history_id :: int
  paper_id :: int
  user_id :: py_str
  read_at :: int
  rating :: "int option"
  notes' :: "py_str option"

text \<open>
  The database session: the rows of the two tables the recommender reads, in the order
  in which the engine scans them.
\<close>

record Session =
  papers :: "Paper list"
  reading_histories :: "ReadingHistory list"

text \<open>
  \<open>DatabaseError\<close> is the exception \<open>db.execute\<close> raises when the engine rejects or
  aborts a statement; \<open>ValueError\<close> is the one numpy raises on arrays whose shapes do not
  fit; \<open>ModelError\<close> is a failure of the sentence-embedding model.
\<close>

datatype error = DatabaseError | ValueError | ModelError

section \<open>Serialising the query vector (recommender.py, line 96)\<close>

text \<open>
  Python's \<open>f'{float(x):.10f}'\<close>: the sign, then the magnitude rounded to ten decimals
  (the exact value, ties to even), written as integer digits, a point and exactly ten
  fraction digits.
\<close>

definition round_half_even :: "real \<Rightarrow> int" where
  "round_half_even x =
     (let f = \<lfloor>x\<rfloor>; r = x - of_int f
      in if r < 1 / 2 then f else if 1 / 2 < r then f + 1
         else if even f then f else f + 1)"

definition digit_char :: "nat \<Rightarrow> char" where
  "digit_char d = ''0123456789'' ! (d mod 10)"

fun dec_digits :: "nat \<Rightarrow> string" where
  "dec_digits n =
     (if n < 10 then [digit_char n] else dec_digits (n div 10) @ [digit_char (n mod 10)])"

declare dec_digits.simps [simp del]

definition frac_digits :: "nat \<Rightarrow> nat \<Rightarrow> string" where
  "frac_digits w n = map (\<lambda>i. digit_char (n div 10 ^ (w - 1 - i))) [0..<w]"

definition format_f10 :: "real \<Rightarrow> string" where
  "format_f10 x =
     (let n = nat (round_half_even (\<bar>x\<bar> * 10 ^ 10))
      in (if x < 0 then ''-'' else '''') @ dec_digits (n div 10 ^ 10) @ ''.''
           @ frac_digits 10 (n mod 10 ^ 10))"

fun join :: "'a list \<Rightarrow> 'a list list \<Rightarrow> 'a list" where
  "join sep [] = []"
| "join sep [s] = s"
| "join sep (s # t # ss) = s @ sep @ join sep (t # ss)"

definition vector_str :: "real list \<Rightarrow> string" where
  "vector_str query_embedding = ''['' @ join '','' (map format_f10 query_embedding) @ '']''"

section \<open>The similarity query (recommender.py, lines 88 to 142)\<close>

text \<open>
  The statement is executed by the database, so its meaning is modelled here. The cast
  \<open>'<vector_str>'::vector\<close> and the operator \<open><=>\<close> belong to the pgvector extension and
  are a parameter \<open>distance\<close>. Applied to the literal the code wrote, it is \<open>None\<close> when
  the engine rejects the literal, which it does when it analyses the statement, before
  it reads any row; otherwise it is the distance of a stored vector from the vector of
  the literal, \<open>None\<close> when the engine raises on that stored vector.
\<close>

type_synonym distance_op = "string \<Rightarrow> (real list \<Rightarrow> real option) option"

text \<open>
  \<open>exclude_clause\<close> is empty when \<open>exclude_ids\<close> is empty or \<open>None\<close>, and
  \<open>AND id NOT IN (...)\<close> otherwise.
\<close>

definition exclude_clause :: "int list \<Rightarrow> int \<Rightarrow> bool" where
  "exclude_clause exclude_ids i = (if exclude_ids \<noteq> [] then i \<notin> set exclude_ids else True)"

text \<open>The rows that pass \<open>WHERE embedding IS NOT NULL {exclude_clause}\<close>, with their vectors.\<close>

definition where_rows :: "Session \<Rightarrow> int list \<Rightarrow> (Paper \<times> real list) list" where
  "where_rows db exclude_ids =
     List.map_filter
       (\<lambda>p. case embedding p of
              None \<Rightarrow> None
            | Some v \<Rightarrow> if exclude_clause exclude_ids (id' p) then Some (p, v) else None)
       (papers db)"

text \<open>
  The sort key of every row that passed the filter, \<open>d\<close> being the distance from the
  vector of the literal; an error on any row aborts the statement.
\<close>

fun score_rows ::
  "(real list \<Rightarrow> real option) \<Rightarrow> (Paper \<times> real list) list \<Rightarrow> (Paper \<times> real) list option" where
  "score_rows d [] = Some []"
| "score_rows d ((p, v) # rows) =
     (case d v of
        None \<Rightarrow> None
      | Some x \<Rightarrow>
          (case score_rows d rows of
             None \<Rightarrow> None
           | Some scored \<Rightarrow> Some ((p, x) # scored)))"

text \<open>
  \<open>ORDER BY embedding <=> ... LIMIT :limit\<close>. The engine rejects a literal that is not
  a vector, a negative limit, and a limit that is no 64-bit integer, whatever the rows
  are. With the limit 0 it returns no row and reads none. Otherwise it computes the sort
  key of every row that passed the filter, orders the rows by ascending distance, rows
  of equal distance in scan order, and returns the first \<open>limit\<close> of them.
\<close>

definition execute_query ::
  "distance_op \<Rightarrow> Session \<Rightarrow> string \<Rightarrow> int list \<Rightarrow> int \<Rightarrow> error + (Paper \<times> real) list" where
  "execute_query distance db vstr exclude_ids limit =
     (case distance vstr of
        None \<Rightarrow> Inl DatabaseError
      | Some d \<Rightarrow>
          if limit < 0 \<or> 2 ^ 63 \<le> limit then Inl DatabaseError
          else if limit = 0 then Inr []
          else case score_rows d (where_rows db exclude_ids) of
                 None \<Rightarrow> Inl DatabaseError
               | Some scored \<Rightarrow> Inr (take (nat limit) (sort_key snd scored)))"

text \<open>
  Each result row becomes a \<open>Paper\<close> built from the selected columns, which do not
  include the embedding, paired with \<open>1 - distance\<close>.
\<close>

definition row_paper :: "Paper \<Rightarrow> Paper" where
  "row_paper p = p\<lparr>embedding := None\<rparr>"

definition find_similar_papers ::
  "distance_op \<Rightarrow> Session \<Rightarrow> real list \<Rightarrow> int \<Rightarrow> int list \<Rightarrow> error + (Paper \<times> real) list" where
  "find_similar_papers distance db query_embedding limit exclude_ids =
     (case execute_query distance db (vector_str query_embedding) exclude_ids limit of
        Inl e \<Rightarrow> Inl e
      | Inr result \<Rightarrow> Inr (map (\<lambda>(p, d). (row_paper p, 1 - d)) result))"

section \<open>Reading history (crud.py, lines 226 to 231)\<close>

text \<open>
  \<open>SELECT DISTINCT paper_id FROM reading_histories WHERE user_id = :user_id\<close>. The
  statement has no \<open>ORDER BY\<close>, so the order of its rows is the engine's choice; the
  model keeps the scan order of the last occurrence of each id.
\<close>

definition get_user_read_paper_ids :: "Session \<Rightarrow> py_str \<Rightarrow> int list" where
  "get_user_read_paper_ids db user =
     remdups (map paper_id (filter (\<lambda>h. user_id h = user) (reading_histories db)))"

section \<open>Python and numpy operations the strategies use\<close>

text \<open>The slice \<open>xs[:n]\<close>: a negative \<open>n\<close> counts from the end.\<close>

definition slice_to :: "'a list \<Rightarrow> int \<Rightarrow> 'a list" where
  "slice_to xs n = (if n < 0 then take (nat (int (length xs) + n)) xs else take (nat n) xs)"

text \<open>
  \<open>np.mean(np.array(rows), axis=0)\<close> on a non-empty list of rows: numpy refuses rows
  of different lengths; otherwise column \<open>j\<close> of the mean is the sum of the rows' entries
  \<open>j\<close> over the number of rows. Every caller tests for the empty list first.
\<close>

definition np_mean_axis0 :: "real list \<Rightarrow> real list list \<Rightarrow> error + real list" where
  "np_mean_axis0 row0 rows =
     (if list_ex (\<lambda>r. length r \<noteq> length row0) rows then Inl ValueError
      else Inr (map (\<lambda>j. (\<Sum>r\<leftarrow>row0 # rows. r ! j) / real (length (row0 # rows)))
                  [0..<length row0]))"

definition np_scale :: "real \<Rightarrow> real list \<Rightarrow> real list" where
  "np_scale c xs = map (\<lambda>x. c * x) xs"

text \<open>
  The sum of two one-dimensional arrays: element-wise for equal lengths, an array of
  length one is broadcast, anything else is a shape error.
\<close>

definition np_add :: "real list \<Rightarrow> real list \<Rightarrow> error + real list" where
  "np_add xs ys =
     (if length xs = length ys then Inr (map (\<lambda>(x, y). x + y) (zip xs ys))
      else case (xs, ys) of
             ([x], _) \<Rightarrow> Inr (map (\<lambda>y. x + y) ys)
           | (_, [y]) \<Rightarrow> Inr (map (\<lambda>x. x + y) xs)
           | _ \<Rightarrow> Inl ValueError)"

section \<open>Embedding a paper (recommender.py, lines 37 to 67)\<close>

text \<open>
  The sentence-embedding model is a parameter \<open>encode\<close>, a function of the text that
  may fail.
\<close>

definition generate_embedding ::
  "(py_str \<Rightarrow> error + real list) \<Rightarrow> py_str \<Rightarrow> error + real list" where
  "generate_embedding encode text' = encode text'"

definition generate_paper_embedding ::
  "(py_str \<Rightarrow> error + real list) \<Rightarrow> Paper \<Rightarrow> error + real list" where
  "generate_paper_embedding encode paper =
     (let text_parts =
            (case abstract paper of
               None \<Rightarrow> [title paper]
             | Some a \<Rightarrow> if a \<noteq> [] then [title paper, take 500 a] else [title paper]);
          combined_text = join [32] text_parts
      in generate_embedding encode combined_text)"

section \<open>The three strategies (recommender.py, lines 144 to 259)\<close>

definition recommend_by_paper ::
  "distance_op \<Rightarrow> Session \<Rightarrow> int \<Rightarrow> int \<Rightarrow> bool \<Rightarrow> error + (Paper \<times> real) list" where
  "recommend_by_paper distance db pid limit exclude_current =
     (case find (\<lambda>p. id' p = pid) (papers db) of
        None \<Rightarrow> Inr []
      | Some paper \<Rightarrow>
          (case embedding paper of
             None \<Rightarrow> Inr []
           | Some v \<Rightarrow>
               find_similar_papers distance db v limit
                 (if exclude_current then [pid] else [])))"

text \<open>
  \<open>db.query(Paper).filter(Paper.id.in_(ids), Paper.embedding.isnot(None)).all()\<close>.
\<close>

definition recent_papers :: "Session \<Rightarrow> int list \<Rightarrow> Paper list" where
  "recent_papers db ids = filter (\<lambda>p. id' p \<in> set ids \<and> embedding p \<noteq> None) (papers db)"

definition recommend_by_reading_history ::
  "distance_op \<Rightarrow> Session \<Rightarrow> py_str \<Rightarrow> int \<Rightarrow> int \<Rightarrow> error + (Paper \<times> real) list" where
  "recommend_by_reading_history distance db user limit history_limit =
     (let read_paper_ids = get_user_read_paper_ids db user
      in if read_paper_ids = [] then Inr []
         else case List.map_filter embedding
                     (recent_papers db (slice_to read_paper_ids history_limit)) of
                [] \<Rightarrow> Inr []
              | e0 # embeddings \<Rightarrow>
                  (case np_mean_axis0 e0 embeddings of
                     Inl err \<Rightarrow> Inl err
                   | Inr avg_embedding \<Rightarrow>
                       find_similar_papers distance db avg_embedding limit read_paper_ids))"

definition recommend_hybrid ::
  "distance_op \<Rightarrow> Session \<Rightarrow> int \<Rightarrow> py_str \<Rightarrow> int \<Rightarrow> error + (Paper \<times> real) list" where
  "recommend_hybrid distance db pid user limit =
     (case find (\<lambda>p. id' p = pid) (papers db) of
        None \<Rightarrow> Inr []
      | Some current_paper \<Rightarrow>
          (case embedding current_paper of
             None \<Rightarrow> Inr []
           | Some current_embedding \<Rightarrow>
               (let read_paper_ids = get_user_read_paper_ids db user;
                    history =
                      (if read_paper_ids \<noteq> []
                       then List.map_filter embedding
                              (recent_papers db (slice_to read_paper_ids 5))
                       else []);
                    exclude_ids = pid # read_paper_ids
                in case history of
                     [] \<Rightarrow> find_similar_papers distance db current_embedding limit exclude_ids
                   | e0 # history_embeddings \<Rightarrow>
                       (case np_mean_axis0 e0 history_embeddings of
                          Inl err \<Rightarrow> Inl err
                        | Inr avg_history_embedding \<Rightarrow>
                            (case np_add (np_scale (7 / 10) current_embedding)
                                    (np_scale (3 / 10) avg_history_embedding) of
                               Inl err \<Rightarrow> Inl err
                             | Inr hybrid_embedding \<Rightarrow>
                                 find_similar_papers distance db hybrid_embedding limit
                                   exclude_ids)))))"

section \<open>Reading the literal back\<close>

text \<open>The pieces of a text between its commas, \<open>cur\<close> being the piece read so far, reversed.\<close>

fun split_commas :: "string \<Rightarrow> string \<Rightarrow> string list" where
  "split_commas cur [] = [rev cur]"
| "split_commas cur (c # cs) =
     (if c = CHR '','' then rev cur # split_commas [] cs else split_commas (c # cur) cs)"

text \<open>
  The number that a literal of the form written by \<open>format_f10\<close> denotes: an optional
  minus sign, integer digits, a point and fraction digits. Anything else has no value
  here.
\<close>

definition digit_val :: "char \<Rightarrow> nat option" where
  "digit_val c =
     map_of [(CHR ''0'', 0), (CHR ''1'', 1), (CHR ''2'', 2), (CHR ''3'', 3), (CHR ''4'', 4),
             (CHR ''5'', 5), (CHR ''6'', 6), (CHR ''7'', 7), (CHR ''8'', 8), (CHR ''9'', 9)] c"

fun parse_digits :: "string \<Rightarrow> nat \<Rightarrow> nat option" where
  "parse_digits [] acc = Some acc"
| "parse_digits (c # cs) acc =
     (case digit_val c of None \<Rightarrow> None | Some d \<Rightarrow> parse_digits cs (10 * acc + d))"

definition parse_decimal :: "string \<Rightarrow> real option" where
  "parse_decimal s =
     (let neg = (take 1 s = ''-'');
          body = (if neg then drop 1 s else s);
          ip = takeWhile (\<lambda>c. c \<noteq> CHR ''.'') body;
          fp = drop (length ip + 1) body
      in if ip = [] \<or> fp = [] then None
         else case (parse_digits ip 0, parse_digits fp 0) of
                (Some a, Some b) \<Rightarrow>
                  Some ((if neg then - 1 else 1) * (real a + real b / 10 ^ length fp))
              | _ \<Rightarrow> None)"

section \<open>An instance of the distance operator\<close>

text \<open>
  The cast and the cosine distance of pgvector as its documentation describes them,
  for use at concrete inputs. The literal is read back as a vector of decimals; the
  cast rejects a vector of no or of more than 16000 components and a component that
  overflows a single-precision float. The operator raises on vectors of different
  dimensions, and the distance is one minus the cosine of the angle. pgvector yields
  NaN for a vector of norm zero, which a real cannot express; the instance gives no
  value there and is never evaluated on such a vector below.
\<close>

fun those_reals :: "real option list \<Rightarrow> real list option" where
  "those_reals [] = Some []"
| "those_reals (None # xs) = None"
| "those_reals (Some x # xs) = (case those_reals xs of None \<Rightarrow> None | Some ys \<Rightarrow> Some (x # ys))"

definition vector_in :: "string \<Rightarrow> real list option" where
  "vector_in s =
     (if 2 < length s \<and> hd s = CHR ''['' \<and> last s = CHR '']''
      then case those_reals (map parse_decimal (split_commas [] (butlast (tl s)))) of
             None \<Rightarrow> None
           | Some q \<Rightarrow>
               if 16000 < length q \<or> list_ex (\<lambda>x. 2 ^ 128 - 2 ^ 103 \<le> \<bar>x\<bar>) q then None
               else Some q
      else None)"

definition cosine_distance :: "real list \<Rightarrow> real list \<Rightarrow> real option" where
  "cosine_distance q v =
     (if length q \<noteq> length v then None
      else let norm_q = (\<Sum>x\<leftarrow>q. x * x); norm_v = (\<Sum>y\<leftarrow>v. y * y)
           in if norm_q = 0 \<or> norm_v = 0 then None
              else Some (1 - (\<Sum>(x, y)\<leftarrow>zip q v. x * y) / sqrt (norm_q * norm_v)))"

definition pgvector_cosine_distance :: distance_op where
  "pgvector_cosine_distance vstr = map_option cosine_distance (vector_in vstr)"

section \<open>Vocabulary of the properties\<close>

text \<open>The value of \<open>embedding <=> '<vector_str>'::vector\<close> on the row of a stored vector.\<close>

definition distance_expr :: "distance_op \<Rightarrow> string \<Rightarrow> real list \<Rightarrow> real option" where
  "distance_expr distance vstr v = (case distance vstr of None \<Rightarrow> None | Some d \<Rightarrow> d v)"

definition is_digit :: "char \<Rightarrow> bool" where
  "is_digit c = (c \<in> set ''0123456789'')"

text \<open>The characters of a vector literal in fixed-point notation.\<close>

definition literal_char :: "char \<Rightarrow> bool" where
  "literal_char c = (c \<in> set ''[],-.0123456789'')"

text \<open>
  The library in which the rows with the id of a paper hold that paper: the state of
  the table once the paper has been stored with a given abstract and embedding.
\<close>

definition put_paper :: "Session \<Rightarrow> Paper \<Rightarrow> Session" where
  "put_paper db p = db\<lparr>papers := map (\<lambda>r. if id' r = id' p then p else r) (papers db)\<rparr>"

section \<open>A small library for the examples\<close>

definition example_paper :: "int \<Rightarrow> real list option \<Rightarrow> Paper" where
  "example_paper i v = \<lparr>id' = i, title = [80], authors = [], abstract = None, pdf_url = None,
     arxiv_id = None, category = None, published_date = None, embedding = v,
     created_at = 0, updated_at = 0\<rparr>"

definition example_read :: "py_str \<Rightarrow> int \<Rightarrow> int \<Rightarrow> int \<Rightarrow> ReadingHistory" where
  "example_read u h p t = \<lparr>history_id = h, paper_id = p, user_id = u, read_at = t,
     rating = None, notes' = None\<rparr>"

definition example_db :: Session where
  "example_db = \<lparr>papers = [example_paper 1 (Some [1, 0]), example_paper 2 (Some [1, 0]),
       example_paper 3 (Some [0, 1]), example_paper 4 None],
     reading_histories = []\<rparr>"

text \<open>
  A library with a reading history: one user has read papers 2, 3 and 4, paper 2
  twice; another has read only paper 4, which has no vector.
\<close>

definition example_history_db :: Session where
  "example_history_db = \<lparr>papers = [example_paper 1 (Some [1, 0]), example_paper 2 (Some [3, 4]),
       example_paper 3 (Some [3, - 4]), example_paper 4 None, example_paper 5 (Some [0, 1])],
     reading_histories =
       [example_read [117] 1 2 100, example_read [117] 2 3 200, example_read [117] 3 4 300,
        example_read [117] 4 2 400, example_read [118] 5 4 500]\<rparr>"

text \<open>
  A library whose first paper has no vector yet, and an encoder that tells a text of
  502 characters from every other text.
\<close>

definition example_long_db :: Session where
  "example_long_db = \<lparr>papers = [example_paper 1 None, example_paper 2 (Some [1, 0]),
       example_paper 3 (Some [0, 1])], reading_histories = []\<rparr>"

definition example_encode :: "py_str \<Rightarrow> error + real list" where
  "example_encode t = Inr (if length t = 502 then [1, 0] else [0, 1])"

section \<open>Properties of the similarity query\<close>

lemma where_rows_iff:
  "(p, v) \<in> set (where_rows db exclude_ids) \<longleftrightarrow>
     p \<in> set (papers db) \<and> embedding p = Some v \<and> exclude_clause exclude_ids (id' p)"
proof -
  have "(p, v) \<in> set (List.map_filter
           (\<lambda>p. case embedding p of None \<Rightarrow> None
                | Some v \<Rightarrow> if exclude_clause exclude_ids (id' p) then Some (p, v) else None) ps)
        \<longleftrightarrow> p \<in> set ps \<and> embedding p = Some v \<and> exclude_clause exclude_ids (id' p)" for ps
    by (induction ps) (auto simp: List.map_filter_simps split: option.splits if_splits)
  then show ?thesis by (simp add: where_rows_def)
qed

lemma length_where_rows:
  "length (where_rows db exclude_ids) =
     length (filter (\<lambda>p. embedding p \<noteq> None \<and> id' p \<notin> set exclude_ids) (papers db))"
proof -
  have "length (List.map_filter
           (\<lambda>p. case embedding p of None \<Rightarrow> None
                | Some v \<Rightarrow> if exclude_clause exclude_ids (id' p) then Some (p, v) else None) ps)
        = length (filter (\<lambda>p. embedding p \<noteq> None \<and> id' p \<notin> set exclude_ids) ps)" for ps
    by (induction ps) (auto simp: List.map_filter_simps exclude_clause_def split: option.splits)
  then show ?thesis by (simp add: where_rows_def)
qed

lemma score_rows_length:
  "score_rows d rows = Some scored \<Longrightarrow> length scored = length rows"
  by (induction rows arbitrary: scored) (auto split: option.splits)

lemma score_rows_mem:
  "score_rows d rows = Some scored \<Longrightarrow> (p, x) \<in> set scored \<Longrightarrow>
     \<exists>v. (p, v) \<in> set rows \<and> d v = Some x"
proof (induction rows arbitrary: scored)
  case Nil
  then show ?case by simp
next
  case (Cons r rows)
  obtain p0 v0 where r: "r = (p0, v0)" by (cases r)
  from Cons.prems(1) r obtain x0 rest where
    x0: "d v0 = Some x0" and rest: "score_rows d rows = Some rest"
    and sc: "scored = (p0, x0) # rest"
    by (auto split: option.splits)
  from Cons.prems(2) sc consider "(p, x) = (p0, x0)" | "(p, x) \<in> set rest" by auto
  then show ?case
  proof cases
    case 1
    with x0 r show ?thesis by auto
  next
    case 2
    from Cons.IH [OF rest 2] show ?thesis by auto
  qed
qed

text \<open>What a returned sequence is: nothing for the limit 0, the head of the ranking otherwise.\<close>

lemma find_similar_papers_Inr:
  assumes "find_similar_papers distance db q k ex = Inr rs"
  obtains d scored where "distance (vector_str q) = Some d" and "0 \<le> k" and "k < 2 ^ 63"
    and "0 < k \<longrightarrow> score_rows d (where_rows db ex) = Some scored"
    and "k = 0 \<longrightarrow> scored = []"
    and "rs = map (\<lambda>(p, x). (row_paper p, 1 - x)) (take (nat k) (sort_key snd scored))"
proof -
  from assms obtain d where d: "distance (vector_str q) = Some d"
    by (auto simp: find_similar_papers_def execute_query_def split: sum.splits option.splits)
  from assms d have k: "0 \<le> k" "k < 2 ^ 63"
    by (auto simp: find_similar_papers_def execute_query_def split: sum.splits if_splits)
  show thesis
  proof (cases "k = 0")
    case True
    with assms d have "rs = []"
      by (auto simp: find_similar_papers_def execute_query_def split: sum.splits)
    with True d k show thesis by (intro that [of d "[]"]) simp_all
  next
    case False
    with assms d k obtain scored where "score_rows d (where_rows db ex) = Some scored"
      and "rs = map (\<lambda>(p, x). (row_paper p, 1 - x)) (take (nat k) (sort_key snd scored))"
      by (auto simp: find_similar_papers_def execute_query_def split: sum.splits option.splits)
    with False d k show thesis by (intro that [of d scored]) simp_all
  qed
qed

lemma result_row:
  assumes "find_similar_papers distance db q k ex = Inr rs" and "(p', s) \<in> set rs"
  obtains p v where "p \<in> set (papers db)" and "embedding p = Some v" and "id' p \<notin> set ex"
    and "p' = row_paper p" and "distance_expr distance (vector_str q) v = Some (1 - s)"
proof -
  from assms(1) obtain d scored where d: "distance (vector_str q) = Some d" and k: "0 \<le> k"
    and sc: "0 < k \<longrightarrow> score_rows d (where_rows db ex) = Some scored"
    and z: "k = 0 \<longrightarrow> scored = []"
    and rs: "rs = map (\<lambda>(p, x). (row_paper p, 1 - x)) (take (nat k) (sort_key snd scored))"
    by (rule find_similar_papers_Inr)
  from assms(2) rs obtain p0 x where p0: "(p0, x) \<in> set (take (nat k) (sort_key snd scored))"
    and p: "p' = row_paper p0" and s: "s = 1 - x" by auto
  from p0 have mem: "(p0, x) \<in> set scored" by (auto dest: in_set_takeD)
  with z k have "0 < k" by (cases "k = 0") auto
  with sc have "score_rows d (where_rows db ex) = Some scored" by simp
  with mem obtain v where v: "(p0, v) \<in> set (where_rows db ex)" and dv: "d v = Some x"
    by (blast dest: score_rows_mem)
  from v have row: "p0 \<in> set (papers db)" "embedding p0 = Some v" "id' p0 \<notin> set ex"
    by (auto simp: where_rows_iff exclude_clause_def split: if_splits)
  from dv d s have "distance_expr distance (vector_str q) v = Some (1 - s)"
    by (simp add: distance_expr_def)
  with row p show thesis by (intro that [of p0 v])
qed

lemma result_length:
  assumes "find_similar_papers distance db q k ex = Inr rs"
  shows "length rs = min (nat k) (length (where_rows db ex))"
proof -
  from assms obtain d scored where k: "0 \<le> k"
    and sc: "0 < k \<longrightarrow> score_rows d (where_rows db ex) = Some scored"
    and z: "k = 0 \<longrightarrow> scored = []"
    and rs: "rs = map (\<lambda>(p, x). (row_paper p, 1 - x)) (take (nat k) (sort_key snd scored))"
    by (rule find_similar_papers_Inr)
  show ?thesis
  proof (cases "k = 0")
    case True
    with z rs show ?thesis by simp
  next
    case False
    with k sc have "score_rows d (where_rows db ex) = Some scored" by simp
    from score_rows_length [OF this] show ?thesis by (simp add: rs min.commute)
  qed
qed

lemma result_not_excluded:
  assumes "find_similar_papers distance db q k ex = Inr rs" and "(p, s) \<in> set rs"
  shows "id' p \<notin> set ex"
proof -
  from assms obtain p0 where "id' p0 \<notin> set ex" and "p = row_paper p0"
    by (rule result_row)
  then show ?thesis by (simp add: row_paper_def)
qed

lemma sorted_similarity:
  "sorted (map snd xs) \<Longrightarrow> sorted_wrt (\<ge>) (map snd (map (\<lambda>(p, d). (f p, 1 - d)) xs :: ('b \<times> real) list))"
  by (induction xs) (auto)

subsection \<open>Evaluation on the example library\<close>

lemma upt_10: "[0..<10] = [0, 1, 2, 3, 4, 5, 6, 7, 8, 9]"
  by (simp add: upt_rec)

lemma vector_str_10: "vector_str [1, 0] = ''[1.0000000000,0.0000000000]''"
  by (simp add: vector_str_def format_f10_def round_half_even_def dec_digits.simps
      frac_digits_def digit_char_def upt_10)

lemma vector_in_10: "vector_in ''[1.0000000000,0.0000000000]'' = Some [1, 0]"
  by (simp add: vector_in_def parse_decimal_def digit_val_def)

lemma pg_10: "pgvector_cosine_distance (vector_str [1, 0]) = Some (cosine_distance [1, 0])"
  by (simp add: pgvector_cosine_distance_def vector_str_10 vector_in_10)

lemma cos_10_10: "cosine_distance [1, 0] [1, 0] = Some 0"
  by (simp add: cosine_distance_def)

lemma cos_10_01: "cosine_distance [1, 0] [0, 1] = Some 1"
  by (simp add: cosine_distance_def)

lemma ex1: "find_similar_papers pgvector_cosine_distance example_db [1, 0] 5 [2] =
      Inr [(example_paper 1 None, 1), (example_paper 3 None, 0)]"
  by (simp add: find_similar_papers_def execute_query_def where_rows_def List.map_filter_simps
      example_db_def example_paper_def exclude_clause_def pg_10 cos_10_10 cos_10_01 row_paper_def)

lemma ex2: "find_similar_papers pgvector_cosine_distance example_db [1, 0] 5 [3, 2, 1] = Inr []"
  by (simp add: find_similar_papers_def execute_query_def where_rows_def List.map_filter_simps
      example_db_def example_paper_def exclude_clause_def pg_10 cos_10_10 cos_10_01 row_paper_def)

subsection \<open>What the engine rejects\<close>

text \<open>
  A query vector of another dimension than the stored ones fails on the first row that
  is read, and on none when the limit is 0. A literal that is no vector, and a limit
  that is negative or no 64-bit integer, fail even when no row is left to read.
\<close>

lemma vector_str_100: "vector_str [1, 0, 0] = ''[1.0000000000,0.0000000000,0.0000000000]''"
  by (simp add: vector_str_def format_f10_def round_half_even_def dec_digits.simps
      frac_digits_def digit_char_def upt_10)

lemma pg_100:
  "pgvector_cosine_distance (vector_str [1, 0, 0]) = Some (cosine_distance [1, 0, 0])"
  by (simp add: pgvector_cosine_distance_def vector_str_100 vector_in_def parse_decimal_def
      digit_val_def)

lemma pg_empty: "pgvector_cosine_distance (vector_str []) = None"
  by (simp add: pgvector_cosine_distance_def vector_str_def vector_in_def)

lemma find_similar_papers_rejected:
  "find_similar_papers pgvector_cosine_distance example_db [1, 0, 0] 5 [] = Inl DatabaseError"
  "find_similar_papers pgvector_cosine_distance example_db [1, 0, 0] 0 [] = Inr []"
  "find_similar_papers pgvector_cosine_distance example_db [] 5 [3, 2, 1] = Inl DatabaseError"
  "find_similar_papers pgvector_cosine_distance example_db [1, 0] (2 ^ 63) [3, 2, 1] =
     Inl DatabaseError"
  "find_similar_papers pgvector_cosine_distance example_db [1, 0] (- 1) [3, 2, 1] =
     Inl DatabaseError"
  by (simp_all add: find_similar_papers_def execute_query_def where_rows_def
      List.map_filter_simps example_db_def example_paper_def exclude_clause_def pg_10 pg_100
      pg_empty cosine_distance_def)

subsection \<open>Exclusion and ranking\<close>

text \<open>
  Claim C1. Whatever the query vector, the limit and the exclusion list, no paper
  returned by \<open>find_similar_papers\<close> has its id in the exclusion list; and when the
  list holds the id of every paper that carries a vector, the result is empty.
\<close>

theorem find_similar_papers_excludes:
  assumes "find_similar_papers distance db q k ex = Inr rs"
  shows "list_all (\<lambda>(p, s). id' p \<notin> set ex) rs \<and>
         (list_all (\<lambda>p. embedding p = None \<or> id' p \<in> set ex) (papers db) \<longrightarrow> rs = [])"
proof -
  have "id' p \<notin> set ex" if "(p, s) \<in> set rs" for p s
    using assms that by (rule result_not_excluded)
  then have one: "list_all (\<lambda>(p, s). id' p \<notin> set ex) rs" by (auto simp: list_all_iff)
  have two: "rs = []" if all: "list_all (\<lambda>p. embedding p = None \<or> id' p \<in> set ex) (papers db)"
  proof -
    have "where_rows db ex = []"
    proof (rule ccontr)
      assume "where_rows db ex \<noteq> []"
      then obtain p v where "(p, v) \<in> set (where_rows db ex)" by (cases "where_rows db ex") auto
      then have "p \<in> set (papers db)" "embedding p = Some v" "exclude_clause ex (id' p)"
        by (simp_all add: where_rows_iff)
      with all show False by (auto simp: list_all_iff exclude_clause_def split: if_splits)
    qed
    with result_length [OF assms] show ?thesis by simp
  qed
  from one two show ?thesis by blast
qed

theorem find_similar_papers_excludes_witness:
  "find_similar_papers pgvector_cosine_distance example_db [1, 0] 5 [2] =
      Inr [(example_paper 1 None, 1), (example_paper 3 None, 0)] \<and>
   list_all (\<lambda>(p, s). id' p \<notin> set [2]) [(example_paper 1 None, 1::real), (example_paper 3 None, 0)] \<and>
   find_similar_papers pgvector_cosine_distance example_db [1, 0] 5 [3, 2, 1] = Inr [] \<and>
   list_all (\<lambda>p. embedding p = None \<or> id' p \<in> set [3, 2, 1]) (papers example_db)"
  using find_similar_papers_excludes [OF ex1] find_similar_papers_excludes [OF ex2] ex1 ex2
  by (simp add: example_db_def example_paper_def)

text \<open>
  Claim C2. The sequence returned by \<open>find_similar_papers\<close> is sorted by
  non-increasing similarity, has at most \<open>k\<close> entries, and has fewer than \<open>k\<close> only
  when fewer than \<open>k\<close> papers carry a vector and lie outside the exclusion list; every
  similarity is one minus the distance of a stored, eligible vector.
\<close>

theorem find_similar_papers_ranked:
  assumes "find_similar_papers distance db q k ex = Inr rs"
  shows "sorted_wrt (\<ge>) (map snd rs) \<and> int (length rs) \<le> k \<and>
         (int (length rs) < k \<longrightarrow>
            int (length (filter (\<lambda>p. embedding p \<noteq> None \<and> id' p \<notin> set ex) (papers db))) < k) \<and>
         list_all (\<lambda>(p', s). \<exists>p v. p \<in> set (papers db) \<and> embedding p = Some v \<and> id' p \<notin> set ex \<and>
                     p' = row_paper p \<and> distance_expr distance (vector_str q) v = Some (1 - s)) rs"
proof -
  from assms obtain d scored where k: "0 \<le> k"
    and rs: "rs = map (\<lambda>(p, x). (row_paper p, 1 - x)) (take (nat k) (sort_key snd scored))"
    by (rule find_similar_papers_Inr)
  let ?top = "take (nat k) (sort_key snd scored)"
  have "sorted (map snd (sort_key snd scored))" by (rule sorted_sort_key)
  then have "sorted (map snd ?top)" by (simp add: take_map [symmetric] sorted_wrt_take)
  then have a: "sorted_wrt (\<ge>) (map snd rs)" unfolding rs by (rule sorted_similarity)
  have len: "length rs = min (nat k) (length (where_rows db ex))"
    using assms by (rule result_length)
  have b: "int (length rs) \<le> k" using k by (simp add: len)
  have c: "int (length rs) < k \<longrightarrow>
            int (length (filter (\<lambda>p. embedding p \<noteq> None \<and> id' p \<notin> set ex) (papers db))) < k"
    using k length_where_rows [of db ex] unfolding len by linarith
  have d: "\<exists>p v. p \<in> set (papers db) \<and> embedding p = Some v \<and> id' p \<notin> set ex \<and>
                     p' = row_paper p \<and> distance_expr distance (vector_str q) v = Some (1 - s)"
    if "(p', s) \<in> set rs" for p' s
    using assms that by (rule result_row) blast
  then have d': "list_all (\<lambda>(p', s). \<exists>p v. p \<in> set (papers db) \<and> embedding p = Some v \<and> id' p \<notin> set ex \<and>
                     p' = row_paper p \<and> distance_expr distance (vector_str q) v = Some (1 - s)) rs"
    by (auto simp: list_all_iff)
  from a b c d' show ?thesis by blast
qed

theorem find_similar_papers_ranked_witness:
  "find_similar_papers pgvector_cosine_distance example_db [1, 0] 5 [2] =
      Inr [(example_paper 1 None, 1), (example_paper 3 None, 0)] \<and>
   sorted_wrt (\<ge>) (map snd [(example_paper 1 None, 1::real), (example_paper 3 None, 0)]) \<and>
   int (length [(example_paper 1 None, 1::real), (example_paper 3 None, 0)]) < 5 \<and>
   int (length (filter (\<lambda>p. embedding p \<noteq> None \<and> id' p \<notin> set [2]) (papers example_db))) < 5"
  using find_similar_papers_ranked [OF ex1] ex1
  by (simp add: example_db_def example_paper_def)

section \<open>The vector literal\<close>

lemma digit_char_is_digit: "is_digit (digit_char d)"
proof -
  have "d mod 10 < length ''0123456789''" by simp
  then have "''0123456789'' ! (d mod 10) \<in> set ''0123456789''" by (rule nth_mem)
  then show ?thesis by (simp only: is_digit_def digit_char_def)
qed

lemma is_digit_literal_char: "is_digit c \<Longrightarrow> literal_char c"
  by (simp add: is_digit_def literal_char_def)

lemma dec_digits_digits: "list_all is_digit (dec_digits n) \<and> dec_digits n \<noteq> []"
proof (induction n rule: dec_digits.induct)
  case (1 n)
  show ?case
  proof (cases "n < 10")
    case True
    then have "dec_digits n = [digit_char n]" by (subst dec_digits.simps) simp
    then show ?thesis by (simp add: digit_char_is_digit)
  next
    case False
    then have "dec_digits n = dec_digits (n div 10) @ [digit_char (n mod 10)]"
      by (subst dec_digits.simps) simp
    with 1 [OF False] show ?thesis by (simp add: digit_char_is_digit)
  qed
qed

lemma frac_digits_digits: "list_all is_digit (frac_digits w n) \<and> length (frac_digits w n) = w"
  unfolding frac_digits_def by (simp add: list_all_iff digit_char_is_digit)

lemma format_f10_shape:
  "\<exists>sgn ip fp. format_f10 x = sgn @ ip @ ''.'' @ fp \<and> (sgn = [] \<or> sgn = ''-'') \<and> ip \<noteq> [] \<and>
     list_all is_digit ip \<and> list_all is_digit fp \<and> length fp = 10"
proof -
  define n where "n = nat (round_half_even (\<bar>x\<bar> * 10 ^ 10))"
  define sgn where "sgn = (if x < 0 then ''-'' else [])"
  define ip where "ip = dec_digits (n div 10 ^ 10)"
  define fp where "fp = frac_digits 10 (n mod 10 ^ 10)"
  have "format_f10 x = sgn @ ip @ ''.'' @ fp"
    unfolding format_f10_def Let_def n_def sgn_def ip_def fp_def by (rule refl)
  moreover have "sgn = [] \<or> sgn = ''-''" by (simp add: sgn_def)
  moreover have "ip \<noteq> []" "list_all is_digit ip"
    unfolding ip_def using dec_digits_digits by blast+
  moreover have "list_all is_digit fp" "length fp = 10"
    unfolding fp_def using frac_digits_digits by blast+
  ultimately show ?thesis by blast
qed

lemma format_f10_chars: "list_all literal_char (format_f10 x)"
proof -
  obtain sgn ip fp where s: "format_f10 x = sgn @ ip @ ''.'' @ fp" and sg: "sgn = [] \<or> sgn = ''-''"
    and ip: "list_all is_digit ip" and fp: "list_all is_digit fp"
    using format_f10_shape [of x] by blast
  have dg: "list_all literal_char ds" if "list_all is_digit ds" for ds
    using that by (simp add: list_all_iff is_digit_literal_char)
  have "list_all literal_char sgn" using sg by (auto simp: literal_char_def)
  moreover have "list_all literal_char ''.''" by (simp add: literal_char_def)
  ultimately show ?thesis using dg [OF ip] dg [OF fp] by (simp add: s)
qed

lemma list_all_map_always: "(\<And>x. P (f x)) \<Longrightarrow> list_all P (map f xs)"
  by (induction xs) simp_all

lemma join_chars:
  "list_all P sep \<Longrightarrow> list_all (list_all P) parts \<Longrightarrow> list_all P (join sep parts)"
  by (induction sep parts rule: join.induct) simp_all

lemma vector_str_chars: "list_all literal_char (vector_str q)"
proof -
  have "list_all (list_all literal_char) (map format_f10 q)"
    by (rule list_all_map_always) (rule format_f10_chars)
  moreover have "list_all literal_char '',''" by (simp add: literal_char_def)
  ultimately have "list_all literal_char (join '','' (map format_f10 q))"
    by (rule join_chars [rotated])
  then show ?thesis by (simp add: vector_str_def literal_char_def)
qed

subsection \<open>The digits denote the component\<close>

lemma digit_val_digit_char: "digit_val (digit_char d) = Some (d mod 10)"
proof -
  define k where "k = d mod 10"
  have "k < 10" by (simp add: k_def)
  then have "k = 0 \<or> k = 1 \<or> k = 2 \<or> k = 3 \<or> k = 4 \<or> k = 5 \<or> k = 6 \<or> k = 7 \<or> k = 8 \<or> k = 9"
    by arith
  then have "digit_val (''0123456789'' ! k) = Some k"
    by (elim disjE) (simp_all add: digit_val_def)
  then show ?thesis by (simp add: digit_char_def k_def)
qed

lemma parse_digits_snoc:
  "parse_digits (ds @ [digit_char d]) acc =
     map_option (\<lambda>a. 10 * a + d mod 10) (parse_digits ds acc)"
  by (induction ds arbitrary: acc) (simp_all add: digit_val_digit_char split: option.splits)

lemma parse_dec_digits: "parse_digits (dec_digits n) 0 = Some n"
proof (induction n rule: dec_digits.induct)
  case (1 n)
  show ?case
  proof (cases "n < 10")
    case True
    then have "dec_digits n = [] @ [digit_char n]" by (subst dec_digits.simps) simp
    then show ?thesis using True by (simp only: parse_digits_snoc) simp
  next
    case False
    then have "dec_digits n = dec_digits (n div 10) @ [digit_char (n mod 10)]"
      by (subst dec_digits.simps) simp
    with 1 [OF False] show ?thesis by (simp add: parse_digits_snoc)
  qed
qed

lemma frac_digits_Suc:
  "frac_digits (Suc w) n = frac_digits w (n div 10) @ [digit_char n]"
proof -
  have "n div 10 ^ (w - i) = n div 10 div 10 ^ (w - 1 - i)" if "i < w" for i
  proof -
    from that have "w - i = Suc (w - 1 - i)" by simp
    then show ?thesis by (simp add: div_mult2_eq)
  qed
  then show ?thesis by (simp add: frac_digits_def)
qed

lemma parse_frac_digits: "parse_digits (frac_digits w n) 0 = Some (n mod 10 ^ w)"
proof (induction w arbitrary: n)
  case 0
  show ?case by (simp add: frac_digits_def)
next
  case (Suc w)
  have "10 * (n div 10 mod 10 ^ w) + n mod 10 = n mod 10 ^ Suc w"
    by (simp add: mod_mult2_eq)
  with Suc [of "n div 10"] show ?case
    by (simp add: frac_digits_Suc parse_digits_snoc)
qed

lemma is_digit_not_point: "is_digit c \<Longrightarrow> c \<noteq> CHR ''.''"
  by (auto simp: is_digit_def)

lemma is_digit_not_minus: "is_digit c \<Longrightarrow> c \<noteq> CHR ''-''"
  by (auto simp: is_digit_def)

lemma digits_no_point:
  "list_all is_digit ds \<Longrightarrow> takeWhile (\<lambda>c. c \<noteq> CHR ''.'') (ds @ ''.'' @ fp) = ds"
  by (induction ds) (simp_all add: is_digit_not_point)

lemma parse_decimal_body:
  assumes "ip \<noteq> []" and "list_all is_digit ip" and "fp \<noteq> []"
    and "parse_digits ip 0 = Some a" and "parse_digits fp 0 = Some b"
    and "body = ip @ ''.'' @ fp"
  shows "(let ip' = takeWhile (\<lambda>c. c \<noteq> CHR ''.'') body;
              fp' = drop (length ip' + 1) body
          in if ip' = [] \<or> fp' = [] then None
             else case (parse_digits ip' 0, parse_digits fp' 0) of
                    (Some a, Some b) \<Rightarrow> Some (sg * (real a + real b / 10 ^ length fp'))
                  | _ \<Rightarrow> None) = Some (sg * (real a + real b / 10 ^ length fp))"
proof -
  have tw: "takeWhile (\<lambda>c. c \<noteq> CHR ''.'') body = ip"
    unfolding assms(6) using assms(2) by (rule digits_no_point)
  have dr: "drop (length ip + 1) body = fp" by (simp add: assms(6))
  show ?thesis
    unfolding Let_def tw dr using assms(1,3,4,5) by simp
qed

lemma parse_decimal_literal:
  assumes "ip \<noteq> []" and "list_all is_digit ip" and "fp \<noteq> []"
    and "parse_digits ip 0 = Some a" and "parse_digits fp 0 = Some b"
  shows "parse_decimal (ip @ ''.'' @ fp) = Some (real a + real b / 10 ^ length fp)"
    and "parse_decimal (''-'' @ ip @ ''.'' @ fp) = Some (- (real a + real b / 10 ^ length fp))"
proof -
  from assms(1) obtain c cs where ip: "ip = c # cs" by (cases ip) auto
  with assms(2) have "is_digit c" by simp
  then have "c \<noteq> CHR ''-''" by (rule is_digit_not_minus)
  then have pos: "(take 1 (ip @ ''.'' @ fp) = ''-'') = False" by (simp add: ip)
  have neg: "(take 1 (''-'' @ ip @ ''.'' @ fp) = ''-'') = True" by simp
  have dr: "drop 1 (''-'' @ ip @ ''.'' @ fp) = ip @ ''.'' @ fp" by simp
  have "parse_decimal (ip @ ''.'' @ fp) = Some (1 * (real a + real b / 10 ^ length fp))"
    unfolding parse_decimal_def
    apply (subst Let_def)
    apply (subst Let_def)
    apply (simp only: pos if_False)
    apply (rule parse_decimal_body [OF assms refl])
    done
  then show "parse_decimal (ip @ ''.'' @ fp) = Some (real a + real b / 10 ^ length fp)"
    by simp
  have "parse_decimal (''-'' @ ip @ ''.'' @ fp) = Some (- 1 * (real a + real b / 10 ^ length fp))"
    unfolding parse_decimal_def
    apply (subst Let_def)
    apply (subst Let_def)
    apply (simp only: neg if_True dr)
    apply (rule parse_decimal_body [OF assms refl])
    done
  then show "parse_decimal (''-'' @ ip @ ''.'' @ fp) = Some (- (real a + real b / 10 ^ length fp))"
    by simp
qed

text \<open>The literal denotes the magnitude rounded to ten decimals, with the sign.\<close>

lemma parse_decimal_format_f10:
  "parse_decimal (format_f10 x) =
     Some ((if x < 0 then - 1 else 1) * real_of_int (round_half_even (\<bar>x\<bar> * 10 ^ 10)) / 10 ^ 10)"
proof -
  define n where "n = nat (round_half_even (\<bar>x\<bar> * 10 ^ 10))"
  define ip where "ip = dec_digits (n div 10 ^ 10)"
  define fp where "fp = frac_digits 10 (n mod 10 ^ 10)"
  have nonneg: "0 \<le> round_half_even (\<bar>x\<bar> * 10 ^ 10)"
  proof -
    have "0 \<le> \<bar>x\<bar> * 10 ^ 10" by simp
    then have "0 \<le> \<lfloor>\<bar>x\<bar> * 10 ^ 10\<rfloor>" by simp
    then show ?thesis by (simp add: round_half_even_def Let_def)
  qed
  have ip: "ip \<noteq> []" "list_all is_digit ip" "parse_digits ip 0 = Some (n div 10 ^ 10)"
    unfolding ip_def using dec_digits_digits parse_dec_digits by blast+
  have fp: "fp \<noteq> []" "length fp = 10" "parse_digits fp 0 = Some (n mod 10 ^ 10)"
    unfolding fp_def using frac_digits_digits [of 10 "n mod 10 ^ 10"] parse_frac_digits [of 10 "n mod 10 ^ 10"]
    by auto
  have val: "real (n div 10 ^ 10) + real (n mod 10 ^ 10) / 10 ^ length fp = real n / 10 ^ 10"
  proof -
    have "real n = real (n div 10 ^ 10 * 10 ^ 10 + n mod 10 ^ 10)" by simp
    also have "\<dots> = real (n div 10 ^ 10) * 10 ^ 10 + real (n mod 10 ^ 10)"
      by (simp only: of_nat_add of_nat_mult of_nat_power of_nat_numeral)
    finally show ?thesis by (simp add: fp(2) field_simps)
  qed
  have n: "real n = real_of_int (round_half_even (\<bar>x\<bar> * 10 ^ 10))"
    using nonneg by (simp add: n_def)
  have f: "format_f10 x = (if x < 0 then ''-'' else []) @ ip @ ''.'' @ fp"
    unfolding format_f10_def Let_def n_def ip_def fp_def by (rule refl)
  show ?thesis
  proof (cases "x < 0")
    case True
    with f have "format_f10 x = ''-'' @ ip @ ''.'' @ fp" by simp
    with parse_decimal_literal(2) [OF ip(1,2) fp(1) ip(3) fp(3)] True val n show ?thesis by simp
  next
    case False
    with f have "format_f10 x = ip @ ''.'' @ fp" by simp
    with parse_decimal_literal(1) [OF ip(1,2) fp(1) ip(3) fp(3)] False val n show ?thesis by simp
  qed
qed

lemma round_half_even_close: "\<bar>real_of_int (round_half_even y) - y\<bar> \<le> 1 / 2"
proof -
  have "real_of_int \<lfloor>y\<rfloor> \<le> y" "y < real_of_int \<lfloor>y\<rfloor> + 1" by linarith+
  then show ?thesis by (auto simp: round_half_even_def Let_def)
qed

lemma format_f10_value:
  "\<exists>y. parse_decimal (format_f10 x) = Some y \<and>
       y = (if x < 0 then - 1 else 1) * real_of_int (round_half_even (\<bar>x\<bar> * 10 ^ 10)) / 10 ^ 10 \<and>
       \<bar>y - x\<bar> \<le> 5 / 10 ^ 11"
proof -
  define r where "r = real_of_int (round_half_even (\<bar>x\<bar> * 10 ^ 10))"
  have c: "\<bar>r - \<bar>x\<bar> * 10 ^ 10\<bar> \<le> 1 / 2" unfolding r_def by (rule round_half_even_close)
  have "\<bar>(if x < 0 then - 1 else 1) * r / 10 ^ 10 - x\<bar> = \<bar>r - \<bar>x\<bar> * 10 ^ 10\<bar> / 10 ^ 10"
  proof (cases "x < 0")
    case True
    then have "(if x < 0 then - 1 else 1) * r / 10 ^ 10 - x = - (r - \<bar>x\<bar> * 10 ^ 10) / 10 ^ 10"
      by (simp add: field_simps)
    then show ?thesis by (simp only: abs_divide abs_minus_cancel) simp
  next
    case False
    then have "(if x < 0 then - 1 else 1) * r / 10 ^ 10 - x = (r - \<bar>x\<bar> * 10 ^ 10) / 10 ^ 10"
      by (simp add: field_simps)
    then show ?thesis by (simp only: abs_divide) simp
  qed
  also have "\<dots> \<le> (1 / 2) / 10 ^ 10" using c by (simp add: divide_right_mono)
  finally have "\<bar>(if x < 0 then - 1 else 1) * r / 10 ^ 10 - x\<bar> \<le> 5 / 10 ^ 11" by simp
  then have "\<bar>(if x < 0 then - 1 else 1) * real_of_int (round_half_even (\<bar>x\<bar> * 10 ^ 10)) / 10 ^ 10 - x\<bar>
      \<le> 5 / 10 ^ 11" by (simp only: r_def)
  with parse_decimal_format_f10 [of x] show ?thesis by blast
qed

subsection \<open>The components stand between the commas\<close>

lemma is_digit_not_comma: "is_digit c \<Longrightarrow> c \<noteq> CHR '',''"
  by (auto simp: is_digit_def)

lemma format_f10_no_comma: "CHR '','' \<notin> set (format_f10 x)"
proof -
  obtain sgn ip fp where s: "format_f10 x = sgn @ ip @ ''.'' @ fp" and sg: "sgn = [] \<or> sgn = ''-''"
    and ip: "list_all is_digit ip" and fp: "list_all is_digit fp"
    using format_f10_shape [of x] by blast
  have "CHR '','' \<notin> set ds" if "list_all is_digit ds" for ds
    using that is_digit_not_comma by (auto simp: list_all_iff)
  with ip fp have "CHR '','' \<notin> set ip" "CHR '','' \<notin> set fp" by blast+
  moreover from sg have "CHR '','' \<notin> set sgn" by auto
  ultimately show ?thesis by (simp add: s)
qed

lemma split_commas_part:
  "CHR '','' \<notin> set s \<Longrightarrow> split_commas cur s = [rev cur @ s]"
  by (induction s arbitrary: cur) auto

lemma split_commas_append:
  "CHR '','' \<notin> set s \<Longrightarrow>
     split_commas cur (s @ '','' @ rest) = (rev cur @ s) # split_commas [] rest"
  by (induction s arbitrary: cur) auto

lemma split_commas_join:
  "list_all (\<lambda>s. CHR '','' \<notin> set s) (p # parts) \<Longrightarrow>
     split_commas [] (join '','' (p # parts)) = p # parts"
proof (induction parts arbitrary: p)
  case Nil
  then show ?case by (simp add: split_commas_part)
next
  case (Cons t parts)
  from Cons.prems have p: "CHR '','' \<notin> set p"
    and rest: "list_all (\<lambda>s. CHR '','' \<notin> set s) (t # parts)" by simp_all
  from Cons.IH [OF rest] split_commas_append [OF p, of "[]" "join '','' (t # parts)"]
  show ?case by simp
qed

lemma vector_str_components:
  "split_commas [] (butlast (tl (vector_str q))) = (if q = [] then [[]] else map format_f10 q)"
proof (cases q)
  case Nil
  then show ?thesis by (simp add: vector_str_def)
next
  case (Cons x xs)
  have "list_all (\<lambda>s. CHR '','' \<notin> set s) (map format_f10 (x # xs))"
    by (rule list_all_map_always) (rule format_f10_no_comma)
  then have "split_commas [] (join '','' (format_f10 x # map format_f10 xs)) =
      format_f10 x # map format_f10 xs"
    using split_commas_join [of "format_f10 x" "map format_f10 xs"] by simp
  moreover have "butlast (tl (vector_str q)) = join '','' (format_f10 x # map format_f10 xs)"
    by (simp add: vector_str_def Cons butlast_append)
  ultimately show ?thesis by (simp add: Cons)
qed

subsection \<open>Evaluation on three components\<close>

text \<open>
  A negative fraction, a tie at the tenth decimal, which goes to the even digit, and a
  magnitude that Python's \<open>repr\<close> writes with an exponent.
\<close>

lemma format_f10_examples:
  "format_f10 (- 1 / 32) = ''-0.0312500000''"
  "format_f10 (1 / 2048) = ''0.0004882812''"
  "format_f10 (10 ^ 22) = ''10000000000000000000000.0000000000''"
  by (simp_all add: format_f10_def round_half_even_def dec_digits.simps frac_digits_def
      digit_char_def upt_10)

lemma parse_decimal_examples:
  "parse_decimal ''-0.0312500000'' = Some (- 1 / 32)"
  "parse_decimal ''0.0004882812'' = Some (4882812 / 10 ^ 10)"
  "parse_decimal ''10000000000000000000000.0000000000'' = Some (10 ^ 22)"
  by (simp_all add: parse_decimal_def digit_val_def)

text \<open>
  Claim C4. In the literal that \<open>find_similar_papers\<close> writes into the statement,
  every component is an optional minus sign, at least one integer digit, a point and
  exactly ten fraction digits, and these digits denote the component rounded to ten
  decimals, ties to even, so a number within \<open>5 / 10 ^ 11\<close> of it. The components
  stand in order between the brackets, separated by single commas. The literal is made
  of brackets, commas, signs, points and digits only, so no exponent letter occurs in
  it, whatever the magnitudes.
\<close>

theorem vector_str_fixed_point:
  "list_all (\<lambda>s. \<exists>sgn ip fp. s = sgn @ ip @ ''.'' @ fp \<and> (sgn = [] \<or> sgn = ''-'') \<and> ip \<noteq> [] \<and>
       list_all is_digit ip \<and> list_all is_digit fp \<and> length fp = 10) (map format_f10 q) \<and>
   list_all (\<lambda>x. \<exists>y. parse_decimal (format_f10 x) = Some y \<and>
       y = (if x < 0 then - 1 else 1) * real_of_int (round_half_even (\<bar>x\<bar> * 10 ^ 10)) / 10 ^ 10 \<and>
       \<bar>y - x\<bar> \<le> 5 / 10 ^ 11) q \<and>
   vector_str q = ''['' @ join '','' (map format_f10 q) @ '']'' \<and>
   split_commas [] (butlast (tl (vector_str q))) = (if q = [] then [[]] else map format_f10 q) \<and>
   list_all literal_char (vector_str q) \<and>
   CHR ''e'' \<notin> set (vector_str q) \<and> CHR ''E'' \<notin> set (vector_str q)"
proof -
  have a: "list_all (\<lambda>s. \<exists>sgn ip fp. s = sgn @ ip @ ''.'' @ fp \<and> (sgn = [] \<or> sgn = ''-'') \<and> ip \<noteq> [] \<and>
       list_all is_digit ip \<and> list_all is_digit fp \<and> length fp = 10) (map format_f10 q)"
    by (rule list_all_map_always) (rule format_f10_shape)
  have v: "list_all (\<lambda>x. \<exists>y. parse_decimal (format_f10 x) = Some y \<and>
       y = (if x < 0 then - 1 else 1) * real_of_int (round_half_even (\<bar>x\<bar> * 10 ^ 10)) / 10 ^ 10 \<and>
       \<bar>y - x\<bar> \<le> 5 / 10 ^ 11) q"
    unfolding list_all_iff using format_f10_value by blast
  have b: "vector_str q = ''['' @ join '','' (map format_f10 q) @ '']''"
    by (simp only: vector_str_def)
  have ne: "\<not> literal_char CHR ''e''" "\<not> literal_char CHR ''E''"
    by (simp_all add: literal_char_def)
  have d: "CHR ''e'' \<notin> set (vector_str q) \<and> CHR ''E'' \<notin> set (vector_str q)"
    using vector_str_chars [of q] ne unfolding list_all_iff by blast
  from a v b vector_str_components [of q] vector_str_chars [of q] d show ?thesis
    by (intro conjI) simp_all
qed

theorem vector_str_fixed_point_witness:
  "vector_str [- 1 / 32, 1 / 2048, 10 ^ 22] =
     ''[-0.0312500000,0.0004882812,10000000000000000000000.0000000000]'' \<and>
   map parse_decimal (map format_f10 [- 1 / 32, 1 / 2048, 10 ^ 22]) =
     [Some (- 1 / 32), Some (4882812 / 10 ^ 10), Some (10 ^ 22)] \<and>
   \<bar>4882812 / 10 ^ 10 - 1 / 2048 :: real\<bar> \<le> 5 / 10 ^ 11 \<and>
   CHR ''e'' \<notin> set (vector_str [- 1 / 32, 1 / 2048, 10 ^ 22])"
proof -
  note w = vector_str_fixed_point [of "[- 1 / 32, 1 / 2048, 10 ^ 22]"]
  have s: "vector_str [- 1 / 32, 1 / 2048, 10 ^ 22] =
     ''[-0.0312500000,0.0004882812,10000000000000000000000.0000000000]''"
    by (simp only: vector_str_def list.map join.simps format_f10_examples) simp
  have p: "map parse_decimal (map format_f10 [- 1 / 32, 1 / 2048, 10 ^ 22]) =
     [Some (- 1 / 32), Some (4882812 / 10 ^ 10), Some (10 ^ 22)]"
    by (simp only: list.map format_f10_examples parse_decimal_examples)
  from w have "\<exists>y. parse_decimal (format_f10 (1 / 2048)) = Some y \<and> \<bar>y - 1 / 2048\<bar> \<le> 5 / 10 ^ 11"
    unfolding list.pred_inject by blast
  then have c: "\<bar>4882812 / 10 ^ 10 - 1 / 2048 :: real\<bar> \<le> 5 / 10 ^ 11"
    by (simp only: format_f10_examples parse_decimal_examples option.inject) blast
  from w have "CHR ''e'' \<notin> set (vector_str [- 1 / 32, 1 / 2048, 10 ^ 22])" by blast
  with s p c show ?thesis by blast
qed

section \<open>Reading history and the strategies\<close>

subsection \<open>Evaluation on the example library\<close>

lemma sqrt_25: "sqrt 25 = 5"
  using real_sqrt_abs [of 5] by simp


lemma upt_2: "[0..<2] = [0, 1]"
  by (simp add: upt_rec)





lemma cos_10_34: "cosine_distance [1, 0] [3, 4] = Some (2 / 5)"
  "cosine_distance [1, 0] [3, - 4] = Some (2 / 5)"
  by (simp_all add: cosine_distance_def sqrt_25)

lemma ids117: "get_user_read_paper_ids example_history_db [117] = [3, 4, 2]"
  by (simp add: get_user_read_paper_ids_def example_history_db_def example_read_def)


lemma hist117_5: "List.map_filter embedding
     (filter (\<lambda>p. id' p \<in> set (slice_to (get_user_read_paper_ids example_history_db [117]) 5) \<and>
                   embedding p \<noteq> None) (papers example_history_db)) = [[3, 4], [3, - 4]]"
  by (simp add: ids117 slice_to_def) (simp add: example_history_db_def example_paper_def List.map_filter_simps)


lemma find1: "find (\<lambda>p. id' p = 1) (papers example_history_db) = Some (example_paper 1 (Some [1, 0]))"
  by (simp add: example_history_db_def example_paper_def)

lemma ex_by_paper: "recommend_by_paper pgvector_cosine_distance example_history_db 1 5 True =
    Inr [(example_paper 2 None, 3 / 5), (example_paper 3 None, 3 / 5), (example_paper 5 None, 0)]"
  by (simp add: recommend_by_paper_def find1)
     (simp add: find_similar_papers_def execute_query_def where_rows_def List.map_filter_simps
      example_history_db_def example_paper_def exclude_clause_def pg_10 cos_10_34 cos_10_01 row_paper_def)

lemma ids118: "get_user_read_paper_ids example_history_db [118] = [4]"
  by (simp add: get_user_read_paper_ids_def example_history_db_def example_read_def)

lemma ids119: "get_user_read_paper_ids example_history_db [119] = []"
  by (simp add: get_user_read_paper_ids_def example_history_db_def example_read_def)

lemma find4: "find (\<lambda>p. id' p = 4) (papers example_history_db) = Some (example_paper 4 None)"
  by (simp add: example_history_db_def example_paper_def)

lemma find9: "find (\<lambda>p. id' p = 9) (papers example_history_db) = None"
  by (simp add: example_history_db_def example_paper_def)

lemma recent118:
  "filter (\<lambda>p. id' p \<in> set (slice_to (get_user_read_paper_ids example_history_db [118]) 10) \<and>
               embedding p \<noteq> None)
     (papers example_history_db) = []"
  by (simp add: ids118 slice_to_def)
     (simp add: example_history_db_def example_paper_def)

subsection \<open>The read ids\<close>

text \<open>
  Claim C3 says that \<open>get_user_read_paper_ids\<close> has one entry per read event and is
  ordered by recency. The statement is \<open>SELECT DISTINCT\<close>: a user who read paper 2
  twice, and papers 3 and 4 once, gets three ids for four events.
\<close>

theorem get_user_read_paper_ids_counterexample:
  "map user_id (reading_histories example_history_db) = [[117], [117], [117], [117], [118]] \<and>
   map paper_id (reading_histories example_history_db) = [2, 3, 4, 2, 4] \<and>
   get_user_read_paper_ids example_history_db [117] = [3, 4, 2] \<and>
   length (get_user_read_paper_ids example_history_db [117]) \<noteq>
     count_list (map user_id (reading_histories example_history_db)) [117]"
  by (simp add: ids117) (simp add: example_history_db_def example_read_def)

text \<open>
  Claim C3, amended. The sequence holds the id of every paper the user has read exactly
  once, however often it was read, and a window of \<open>n\<close> ids is its first \<open>n\<close>
  elements.
\<close>

theorem get_user_read_paper_ids_distinct:
  "distinct (get_user_read_paper_ids db user) \<and>
   set (get_user_read_paper_ids db user) =
     paper_id ` {h \<in> set (reading_histories db). user_id h = user} \<and>
   slice_to (get_user_read_paper_ids db user) (int n) = take n (get_user_read_paper_ids db user)"
  by (auto simp: get_user_read_paper_ids_def slice_to_def)

subsection \<open>Hybrid recommendation without history\<close>

text \<open>
  Claim C6. For a user with no read papers, \<open>recommend_hybrid\<close> returns exactly what
  \<open>recommend_by_paper\<close> returns for the same paper and limit.
\<close>

theorem recommend_hybrid_no_history:
  assumes "get_user_read_paper_ids db user = []"
  shows "recommend_hybrid distance db pid user k = recommend_by_paper distance db pid k True"
  using assms
  by (simp add: recommend_hybrid_def recommend_by_paper_def split: option.splits)

theorem recommend_hybrid_no_history_witness:
  "get_user_read_paper_ids example_history_db [119] = [] \<and>
   recommend_hybrid pgvector_cosine_distance example_history_db 1 [119] 5 =
     recommend_by_paper pgvector_cosine_distance example_history_db 1 5 True \<and>
   recommend_by_paper pgvector_cosine_distance example_history_db 1 5 True =
     Inr [(example_paper 2 None, 3 / 5), (example_paper 3 None, 3 / 5), (example_paper 5 None, 0)]"
  using recommend_hybrid_no_history [OF ids119, of pgvector_cosine_distance 1 5] ids119 ex_by_paper
  by simp

subsection \<open>Empty results\<close>

text \<open>
  Claim C9. A paper id that does not exist, or whose paper has no vector, makes
  \<open>recommend_by_paper\<close> and \<open>recommend_hybrid\<close> return the empty sequence; a user
  without read papers, or whose window holds no paper with a vector, makes
  \<open>recommend_by_reading_history\<close> return the empty sequence. None of them fails.
\<close>

theorem recommend_empty_results:
  "(find (\<lambda>p. id' p = missing) (papers dba) = None \<longrightarrow>
      recommend_by_paper distance dba missing k xc = Inr [] \<and>
      recommend_hybrid distance dba missing usera k = Inr []) \<and>
   (find (\<lambda>p. id' p = bare) (papers dbb) = Some paper \<and> embedding paper = None \<longrightarrow>
      recommend_by_paper distance dbb bare k xc = Inr [] \<and>
      recommend_hybrid distance dbb bare userb k = Inr []) \<and>
   (get_user_read_paper_ids dbc userc = [] \<longrightarrow>
      recommend_by_reading_history distance dbc userc k hl = Inr []) \<and>
   (filter (\<lambda>p. id' p \<in> set (slice_to (get_user_read_paper_ids dbd userd) hl) \<and>
                 embedding p \<noteq> None) (papers dbd) = [] \<longrightarrow>
      recommend_by_reading_history distance dbd userd k hl = Inr [])"
  by (simp add: recommend_by_paper_def recommend_hybrid_def recommend_by_reading_history_def
      recent_papers_def List.map_filter_simps Let_def)

theorem recommend_empty_results_witness:
  "find (\<lambda>p. id' p = 9) (papers example_history_db) = None \<and>
   recommend_by_paper pgvector_cosine_distance example_history_db 9 5 True = Inr [] \<and>
   recommend_hybrid pgvector_cosine_distance example_history_db 9 [117] 5 = Inr [] \<and>
   find (\<lambda>p. id' p = 4) (papers example_history_db) = Some (example_paper 4 None) \<and>
   embedding (example_paper 4 None) = None \<and>
   recommend_by_paper pgvector_cosine_distance example_history_db 4 5 True = Inr [] \<and>
   recommend_hybrid pgvector_cosine_distance example_history_db 4 [117] 5 = Inr [] \<and>
   get_user_read_paper_ids example_history_db [119] = [] \<and>
   recommend_by_reading_history pgvector_cosine_distance example_history_db [119] 5 10 = Inr [] \<and>
   filter (\<lambda>p. id' p \<in> set (slice_to (get_user_read_paper_ids example_history_db [118]) 10) \<and>
                embedding p \<noteq> None) (papers example_history_db) = [] \<and>
   recommend_by_reading_history pgvector_cosine_distance example_history_db [118] 5 10 = Inr []"
  using recommend_empty_results [where missing = 9 and dba = example_history_db
      and distance = pgvector_cosine_distance and k = 5 and xc = True and usera = "[117]"
      and bare = 4 and dbb = example_history_db and paper = "example_paper 4 None"
      and userb = "[117]" and dbc = example_history_db and userc = "[119]" and hl = 10
      and dbd = example_history_db and userd = "[118]"]
    find9 find4 ids119 recent118
  by (simp add: example_paper_def)

subsection \<open>Centroid and blend\<close>

lemma np_mean_axis0_uniform:
  "list_all (\<lambda>r. length r = length row0) rows \<Longrightarrow>
     np_mean_axis0 row0 rows =
       Inr (map (\<lambda>j. (\<Sum>r\<leftarrow>row0 # rows. r ! j) / real (length (row0 # rows))) [0..<length row0])"
  by (simp add: np_mean_axis0_def list_ex_iff list_all_iff)

lemma np_blend:
  assumes "length v = n"
  shows "np_add (np_scale a v) (np_scale b (map f [0..<n])) =
           Inr (map (\<lambda>j. a * v ! j + b * f j) [0..<n])"
proof -
  have len: "length (np_scale a v) = length (np_scale b (map f [0..<n]))"
    using assms by (simp add: np_scale_def)
  have "map (\<lambda>(x, y). x + y) (zip (np_scale a v) (np_scale b (map f [0..<n]))) =
          map (\<lambda>j. a * v ! j + b * f j) [0..<n]"
    using assms by (intro nth_equalityI) (simp_all add: np_scale_def)
  with len show ?thesis by (simp add: np_add_def)
qed

text \<open>
  Claim C5. When the target paper has a vector and the user's five-id window holds at
  least one paper with a vector, \<open>recommend_hybrid\<close> searches with the vector whose
  component \<open>j\<close> is 0.7 times the paper's component plus 0.3 times the mean of the
  history vectors' components, the mean being over the number of history vectors present.
\<close>

theorem recommend_hybrid_blend:
  assumes paper: "find (\<lambda>p. id' p = pid) (papers db) = Some paper"
    and vec: "embedding paper = Some v"
    and hist: "List.map_filter embedding
                 (filter (\<lambda>p. id' p \<in> set (slice_to (get_user_read_paper_ids db user) 5) \<and>
                               embedding p \<noteq> None) (papers db)) = hs"
    and ne: "hs \<noteq> []"
    and dims: "list_all (\<lambda>h. length h = length v) hs"
  shows "recommend_hybrid distance db pid user k =
           find_similar_papers distance db
             (map (\<lambda>j. 7 / 10 * v ! j + 3 / 10 * ((\<Sum>h\<leftarrow>hs. h ! j) / real (length hs)))
                [0..<length v])
             k (pid # get_user_read_paper_ids db user)"
proof -
  have ids: "get_user_read_paper_ids db user \<noteq> []"
  proof
    assume "get_user_read_paper_ids db user = []"
    with hist have "hs = []" by (simp add: slice_to_def List.map_filter_simps)
    with ne show False by simp
  qed
  from ne obtain e0 es where hs: "hs = e0 # es" by (cases hs) auto
  from dims hs have e0: "length e0 = length v" and es: "list_all (\<lambda>r. length r = length e0) es"
    by (simp_all add: list_all_iff)
  have mean: "np_mean_axis0 e0 es =
      Inr (map (\<lambda>j. (\<Sum>h\<leftarrow>hs. h ! j) / real (length hs)) [0..<length v])"
    using np_mean_axis0_uniform [OF es] by (simp only: hs e0)
  have blend: "np_add (np_scale (7 / 10) v)
        (np_scale (3 / 10) (map (\<lambda>j. (\<Sum>h\<leftarrow>hs. h ! j) / real (length hs)) [0..<length v])) =
      Inr (map (\<lambda>j. 7 / 10 * v ! j + 3 / 10 * ((\<Sum>h\<leftarrow>hs. h ! j) / real (length hs)))
             [0..<length v])"
    by (rule np_blend) (rule refl)
  have "List.map_filter embedding
          (recent_papers db (slice_to (get_user_read_paper_ids db user) 5)) = e0 # es"
    using hist hs by (simp only: recent_papers_def)
  then show ?thesis
    using ids by (simp add: recommend_hybrid_def paper vec mean blend Let_def)
qed

theorem recommend_hybrid_blend_witness:
  "find (\<lambda>p. id' p = 1) (papers example_history_db) = Some (example_paper 1 (Some [1, 0])) \<and>
   embedding (example_paper 1 (Some [1, 0])) = Some [1, 0] \<and>
   List.map_filter embedding
     (filter (\<lambda>p. id' p \<in> set (slice_to (get_user_read_paper_ids example_history_db [117]) 5) \<and>
                   embedding p \<noteq> None) (papers example_history_db)) = [[3, 4], [3, - 4]] \<and>
   [[3, 4], [3, - 4 :: real]] \<noteq> [] \<and>
   list_all (\<lambda>h. length h = length [1, 0 :: real]) [[3, 4], [3, - 4 :: real]] \<and>
   recommend_hybrid pgvector_cosine_distance example_history_db 1 [117] 5 =
     find_similar_papers pgvector_cosine_distance example_history_db [8 / 5, 0] 5 [1, 3, 4, 2]"
proof -
  have e: "embedding (example_paper 1 (Some [1, 0])) = Some [1, 0]"
    by (simp add: example_paper_def)
  have n: "[[3, 4], [3, - 4 :: real]] \<noteq> []" by simp
  have d: "list_all (\<lambda>h. length h = length [1, 0 :: real]) [[3, 4], [3, - 4 :: real]]" by simp
  from recommend_hybrid_blend [OF find1 e hist117_5 n d, of pgvector_cosine_distance 5]
  have "recommend_hybrid pgvector_cosine_distance example_history_db 1 [117] 5 =
     find_similar_papers pgvector_cosine_distance example_history_db [8 / 5, 0] 5 [1, 3, 4, 2]"
    by (simp add: upt_2 ids117)
  with find1 e hist117_5 n d show ?thesis by blast
qed



subsection \<open>Truncated abstracts\<close>

text \<open>
  The query reads the id and the vector of a row and returns its other columns as they
  are, so a change \<open>g\<close> of those columns shows in the returned rows and nowhere else.
\<close>

lemma where_rows_map:
  assumes "\<And>p. id' (g p) = id' p" and "\<And>p. embedding (g p) = embedding p"
  shows "where_rows (db\<lparr>papers := map g (papers db)\<rparr>) ex =
           map (\<lambda>(p, v). (g p, v)) (where_rows db ex)"
proof -
  have "List.map_filter
           (\<lambda>p. case embedding p of None \<Rightarrow> None
                | Some v \<Rightarrow> if exclude_clause ex (id' p) then Some (p, v) else None) (map g ps) =
        map (\<lambda>(p, v). (g p, v)) (List.map_filter
           (\<lambda>p. case embedding p of None \<Rightarrow> None
                | Some v \<Rightarrow> if exclude_clause ex (id' p) then Some (p, v) else None) ps)" for ps
    by (induction ps) (simp_all add: List.map_filter_simps assms split: option.splits)
  then show ?thesis by (simp add: where_rows_def)
qed

lemma score_rows_map:
  "score_rows d (map (\<lambda>(p, v). (g p, v)) rows) = map_option (map (apfst g)) (score_rows d rows)"
  by (induction rows) (auto split: option.splits)

lemma insort_key_apfst:
  "insort_key snd (apfst g x) (map (apfst g) xs) = map (apfst g) (insort_key snd x xs)"
  by (induction xs) simp_all

lemma sort_key_apfst:
  "sort_key snd (map (apfst g) xs) = map (apfst g) (sort_key snd xs)"
  by (induction xs) (simp_all add: insort_key_apfst)

lemma find_similar_papers_map:
  assumes "\<And>p. id' (g p) = id' p" and "\<And>p. embedding (g p) = embedding p"
    and "\<And>p. row_paper (g p) = g (row_paper p)"
  shows "find_similar_papers distance (db\<lparr>papers := map g (papers db)\<rparr>) q k ex =
           map_sum id (map (apfst g)) (find_similar_papers distance db q k ex)"
proof -
  have m: "map (\<lambda>(p, x). (row_paper p, 1 - x)) (take n (sort_key snd (map (apfst g) scored))) =
        map (apfst g) (map (\<lambda>(p, x). (row_paper p, 1 - x)) (take n (sort_key snd scored)))"
    for n and scored :: "(Paper \<times> real) list"
    by (simp add: sort_key_apfst take_map assms(3) split_beta)
  show ?thesis
    unfolding find_similar_papers_def execute_query_def where_rows_map [of g, OF assms(1,2)]
      score_rows_map
    by (cases "score_rows (the (distance (vector_str q))) (where_rows db ex)")
       (simp_all add: m split: option.splits)
qed

lemma find_map_same_id:
  assumes "\<And>p. id' (g p) = id' p"
  shows "find (\<lambda>p. id' p = pid) (map g ps) = map_option g (find (\<lambda>p. id' p = pid) ps)"
  by (induction ps) (simp_all add: assms)

lemma recommend_by_paper_map:
  assumes "\<And>p. id' (g p) = id' p" and "\<And>p. embedding (g p) = embedding p"
    and "\<And>p. row_paper (g p) = g (row_paper p)"
  shows "recommend_by_paper distance (db\<lparr>papers := map g (papers db)\<rparr>) pid k xc =
           map_sum id (map (apfst g)) (recommend_by_paper distance db pid k xc)"
  unfolding recommend_by_paper_def
  by (simp add: find_map_same_id [of g, OF assms(1)] find_similar_papers_map [of g, OF assms]
      assms(2) split: option.splits)

text \<open>With the target excluded, a change of the target's own columns does not show at all.\<close>

lemma recommend_by_paper_own_row:
  assumes "\<And>p. id' (g p) = id' p" and "\<And>p. embedding (g p) = embedding p"
    and "\<And>p. row_paper (g p) = g (row_paper p)" and "\<And>p. id' p \<noteq> pid \<Longrightarrow> g p = p"
  shows "recommend_by_paper distance (db\<lparr>papers := map g (papers db)\<rparr>) pid k True =
           recommend_by_paper distance db pid k True"
proof (cases "recommend_by_paper distance db pid k True")
  case (Inl e)
  then show ?thesis by (simp add: recommend_by_paper_map [of g, OF assms(1,2,3)])
next
  case (Inr rs)
  have "g p = p" if "(p, s) \<in> set rs" for p s
  proof -
    from Inr that obtain paper v where "find_similar_papers distance db v k [pid] = Inr rs"
      by (auto simp: recommend_by_paper_def split: option.splits)
    from result_not_excluded [OF this that] show ?thesis by (simp add: assms(4))
  qed
  then have "map (apfst g) rs = rs" by (intro map_idI) auto
  with Inr show ?thesis by (simp add: recommend_by_paper_map [of g, OF assms(1,2,3)])
qed

lemma generate_paper_embedding_text:
  "generate_paper_embedding encode paper =
     encode (case abstract paper of
               None \<Rightarrow> title paper
             | Some a \<Rightarrow> if a = [] then title paper else title paper @ [32] @ take 500 a)"
  by (simp add: generate_paper_embedding_def generate_embedding_def split: option.splits)

lemma put_paper_cut:
  "put_paper db (paper\<lparr>abstract := Some b, embedding := e\<rparr>) =
     (put_paper db (paper\<lparr>abstract := Some a, embedding := e\<rparr>))
       \<lparr>papers := map (\<lambda>p. if id' p = id' paper then p\<lparr>abstract := Some b\<rparr> else p)
                    (papers (put_paper db (paper\<lparr>abstract := Some a, embedding := e\<rparr>)))\<rparr>"
  by (simp add: put_paper_def comp_def cong: if_cong)

subsection \<open>Evaluation on the example library\<close>

lemma long_generate:
  "generate_paper_embedding example_encode
     ((example_paper 1 None)\<lparr>abstract := Some (replicate 501 97)\<rparr>) = Inr [1, 0]"
  "generate_paper_embedding example_encode
     ((example_paper 1 None)\<lparr>abstract := Some (take 500 (replicate 501 97))\<rparr>) = Inr [1, 0]"
  by (simp_all add: generate_paper_embedding_def generate_embedding_def example_encode_def
      example_paper_def)

lemma long_by_paper:
  "recommend_by_paper pgvector_cosine_distance
     (put_paper example_long_db
        ((example_paper 1 None)\<lparr>abstract := Some (replicate 501 97), embedding := Some [1, 0]\<rparr>))
     (id' (example_paper 1 None)) 5 True =
   Inr [(example_paper 2 None, 1), (example_paper 3 None, 0)]"
  by (simp add: recommend_by_paper_def put_paper_def example_long_db_def example_paper_def)
     (simp add: find_similar_papers_def execute_query_def where_rows_def List.map_filter_simps
      exclude_clause_def pg_10 cos_10_10 cos_10_01 row_paper_def)

text \<open>
  Claim C8. \<open>generate_paper_embedding\<close> encodes the title alone when the abstract is
  missing or empty, and otherwise the title, one space and the first 500 characters of
  the abstract, so it gives the same result for an abstract and for its first 500
  characters. Hence \<open>recommend_by_paper\<close>, on the library that stores a paper with the
  embedding generated from it, returns the same whether the paper is stored with its
  abstract or with the abstract cut to 500 characters; when the paper itself is not
  excluded, the results differ by the abstract shown in its own row.
\<close>

theorem generate_paper_embedding_truncates:
  "generate_paper_embedding encode paper =
     encode (case abstract paper of
               None \<Rightarrow> title paper
             | Some a \<Rightarrow> if a = [] then title paper else title paper @ [32] @ take 500 a) \<and>
   generate_paper_embedding encode (paper\<lparr>abstract := Some a\<rparr>) =
     generate_paper_embedding encode (paper\<lparr>abstract := Some (take 500 a)\<rparr>) \<and>
   length (take 500 a) = min (length a) 500 \<and>
   (generate_paper_embedding encode (paper\<lparr>abstract := Some a\<rparr>) = Inr v \<and>
    generate_paper_embedding encode (paper\<lparr>abstract := Some (take 500 a)\<rparr>) = Inr w \<longrightarrow>
      recommend_by_paper distance
          (put_paper db (paper\<lparr>abstract := Some (take 500 a), embedding := Some w\<rparr>))
          (id' paper) k True =
        recommend_by_paper distance
          (put_paper db (paper\<lparr>abstract := Some a, embedding := Some v\<rparr>)) (id' paper) k True \<and>
      recommend_by_paper distance
          (put_paper db (paper\<lparr>abstract := Some (take 500 a), embedding := Some w\<rparr>))
          (id' paper) k False =
        map_sum id
          (map (apfst (\<lambda>p. if id' p = id' paper then p\<lparr>abstract := Some (take 500 a)\<rparr> else p)))
          (recommend_by_paper distance
             (put_paper db (paper\<lparr>abstract := Some a, embedding := Some v\<rparr>)) (id' paper) k False))"
proof -
  let ?g = "\<lambda>p. if id' p = id' paper then p\<lparr>abstract := Some (take 500 a)\<rparr> else p"
  let ?full = "\<lambda>v. put_paper db (paper\<lparr>abstract := Some a, embedding := Some v\<rparr>)"
  have two: "generate_paper_embedding encode (paper\<lparr>abstract := Some a\<rparr>) =
     generate_paper_embedding encode (paper\<lparr>abstract := Some (take 500 a)\<rparr>)"
    by (simp add: generate_paper_embedding_text)
  have g: "id' (?g p) = id' p" "embedding (?g p) = embedding p" "row_paper (?g p) = ?g (row_paper p)"
    "id' p \<noteq> id' paper \<Longrightarrow> ?g p = p" for p
    by (simp_all add: row_paper_def)
  have cut: "put_paper db (paper\<lparr>abstract := Some (take 500 a), embedding := Some v\<rparr>) =
      (?full v)\<lparr>papers := map ?g (papers (?full v))\<rparr>" for v
    by (rule put_paper_cut)
  have three: "recommend_by_paper distance
          (put_paper db (paper\<lparr>abstract := Some (take 500 a), embedding := Some w\<rparr>))
          (id' paper) k True =
        recommend_by_paper distance (?full v) (id' paper) k True \<and>
      recommend_by_paper distance
          (put_paper db (paper\<lparr>abstract := Some (take 500 a), embedding := Some w\<rparr>))
          (id' paper) k False =
        map_sum id (map (apfst ?g)) (recommend_by_paper distance (?full v) (id' paper) k False)"
    if v: "generate_paper_embedding encode (paper\<lparr>abstract := Some a\<rparr>) = Inr v"
      and w: "generate_paper_embedding encode (paper\<lparr>abstract := Some (take 500 a)\<rparr>) = Inr w"
  proof -
    from v w two have "w = v" by simp
    then show ?thesis
      unfolding cut
      using recommend_by_paper_own_row [of ?g "id' paper" distance "?full v" k, OF g]
        recommend_by_paper_map [of ?g distance "?full v" "id' paper" k False, OF g(1,2,3)]
      by simp
  qed
  have len: "length (take 500 a) = min (length a) 500" by simp
  from generate_paper_embedding_text [of encode paper] two len three show ?thesis by blast
qed

theorem generate_paper_embedding_truncates_witness:
  "generate_paper_embedding example_encode
     ((example_paper 1 None)\<lparr>abstract := Some (replicate 501 97)\<rparr>) = Inr [1, 0] \<and>
   generate_paper_embedding example_encode
     ((example_paper 1 None)\<lparr>abstract := Some (take 500 (replicate 501 97))\<rparr>) = Inr [1, 0] \<and>
   example_encode ([80] @ [32] @ replicate 501 97) = Inr [0, 1] \<and>
   recommend_by_paper pgvector_cosine_distance
     (put_paper example_long_db
        ((example_paper 1 None)\<lparr>abstract := Some (replicate 501 97), embedding := Some [1, 0]\<rparr>))
     (id' (example_paper 1 None)) 5 True =
   Inr [(example_paper 2 None, 1), (example_paper 3 None, 0)] \<and>
   recommend_by_paper pgvector_cosine_distance
     (put_paper example_long_db
        ((example_paper 1 None)\<lparr>abstract := Some (take 500 (replicate 501 97)),
           embedding := Some [1, 0]\<rparr>))
     (id' (example_paper 1 None)) 5 True =
   Inr [(example_paper 2 None, 1), (example_paper 3 None, 0)]"
proof -
  note w = generate_paper_embedding_truncates [of example_encode
      "(example_paper 1 None)\<lparr>abstract := Some (replicate 501 97)\<rparr>" "replicate 501 97"
      "[1, 0]" "[1, 0]" pgvector_cosine_distance example_long_db 5]
  have p: "(example_paper 1 None)\<lparr>abstract := Some (replicate 501 97), abstract := Some b\<rparr> =
      (example_paper 1 None)\<lparr>abstract := Some b\<rparr>" for b
    by simp
  have i: "id' ((example_paper 1 None)\<lparr>abstract := Some (replicate 501 97)\<rparr>) = id' (example_paper 1 None)"
    by simp
  have e: "example_encode ([80] @ [32] @ replicate 501 97) = Inr [0, 1]"
    by (simp add: example_encode_def)
  from w long_generate have "recommend_by_paper pgvector_cosine_distance
     (put_paper example_long_db
        ((example_paper 1 None)\<lparr>abstract := Some (take 500 (replicate 501 97)),
           embedding := Some [1, 0]\<rparr>))
     (id' (example_paper 1 None)) 5 True =
    recommend_by_paper pgvector_cosine_distance
     (put_paper example_long_db
        ((example_paper 1 None)\<lparr>abstract := Some (replicate 501 97), embedding := Some [1, 0]\<rparr>))
     (id' (example_paper 1 None)) 5 True"
    unfolding p i by blast
  with long_by_paper long_generate e show ?thesis by simp
qed

end
